theory Spec2Isabelle
  imports Main "HOL-Library.Sublist" "HOL-Library.AList"
begin

section \<open>JSON values and the JavaScript operations applied to them\<close>

text \<open>
  Both programs exchange JSON: the server parses request bodies, the provider's text and
  the file \<^verbatim>\<open>db.json\<close> with \<^verbatim>\<open>JSON.parse\<close>, the client receives parsed response data.
  A number \<open>JNum n\<close> is the integral JavaScript number \<open>n\<close> of magnitude at most
  \<open>2^53\<close>, the range in which every integer is a number of its own and prints as its
  decimal digits; larger numbers, fractions, infinities and NaN are outside the model. An object is
  the list of its own members; every read is by key, so the order of the list plays no
  role. The JavaScript value \<^verbatim>\<open>undefined\<close> is not a JSON value: a read that may yield
  it has type \<open>json option\<close>, with \<open>None\<close> for \<^verbatim>\<open>undefined\<close>.
\<close>

datatype json =
    JNull
  | JBool bool
  | JNum int
  | JStr string
  | JArr "json list"
  | JObj "(string \<times> json) list"

datatype js_error = TypeError | RangeError

text \<open>Truthiness, as \<^verbatim>\<open>!x\<close>, \<^verbatim>\<open>x || y\<close> and \<^verbatim>\<open>x && y\<close> test it.\<close>

fun truthy :: "json option \<Rightarrow> bool" where
  "truthy None = False"
| "truthy (Some JNull) = False"
| "truthy (Some (JBool b)) = b"
| "truthy (Some (JNum n)) = (n \<noteq> 0)"
| "truthy (Some (JStr s)) = (s \<noteq> [])"
| "truthy (Some (JArr xs)) = True"
| "truthy (Some (JObj ps)) = True"

text \<open>
  Conversion to a string, which a computed property key \<^verbatim>\<open>obj[key]\<close> and a template
  literal apply: decimal digits for a number, the elements joined by commas for an array
  (\<^verbatim>\<open>null\<close> elements give the empty string), \<^verbatim>\<open>[object Object]\<close> for an object.
\<close>

fun show_nat :: "nat \<Rightarrow> string" where
  "show_nat n =
     (if n < 10 then [''0123456789'' ! n]
      else show_nat (n div 10) @ [''0123456789'' ! (n mod 10)])"

declare show_nat.simps [simp del]

definition show_int :: "int \<Rightarrow> string" where
  "show_int i = (if i < 0 then CHR ''-'' # show_nat (nat (- i)) else show_nat (nat i))"

fun join_comma :: "string list \<Rightarrow> string" where
  "join_comma [] = []"
| "join_comma [s] = s"
| "join_comma (s # t # ss) = s @ CHR '','' # join_comma (t # ss)"

fun js_to_string :: "json \<Rightarrow> string" where
  "js_to_string JNull = ''null''"
| "js_to_string (JBool b) = (if b then ''true'' else ''false'')"
| "js_to_string (JNum n) = show_int n"
| "js_to_string (JStr s) = s"
| "js_to_string (JArr xs) =
     join_comma (map (\<lambda>x. if x = JNull then [] else js_to_string x) xs)"
| "js_to_string (JObj ps) = ''[object Object]''"

definition to_property_key :: "json option \<Rightarrow> string" where
  "to_property_key v = (case v of None \<Rightarrow> ''undefined'' | Some j \<Rightarrow> js_to_string j)"

text \<open>
  A property read \<^verbatim>\<open>obj[key]\<close> on an object that \<^verbatim>\<open>JSON.parse\<close> built finds the
  object's own member first and then the members every plain object inherits from
  \<^verbatim>\<open>Object.prototype\<close>. An inherited member is a built-in function (for \<^verbatim>\<open>__proto__\<close>
  the prototype object itself): it is truthy, it is no array and it has no \<^verbatim>\<open>push\<close>.
\<close>

definition object_prototype_names :: "string list" where
  "object_prototype_names =
     [''constructor'', ''hasOwnProperty'', ''isPrototypeOf'', ''propertyIsEnumerable'',
      ''toLocaleString'', ''toString'', ''valueOf'', ''__proto__'',
      ''__defineGetter__'', ''__defineSetter__'', ''__lookupGetter__'', ''__lookupSetter__'']"

datatype js_value = Json json | Builtin string

definition get_member :: "(string \<times> json) list \<Rightarrow> string \<Rightarrow> js_value option" where
  "get_member ps k =
     (case map_of ps k of
        Some v \<Rightarrow> Some (Json v)
      | None \<Rightarrow> if k \<in> set object_prototype_names then Some (Builtin k) else None)"

fun truthy_value :: "js_value option \<Rightarrow> bool" where
  "truthy_value None = False"
| "truthy_value (Some (Json j)) = truthy (Some j)"
| "truthy_value (Some (Builtin k)) = True"

section \<open>The score ledger: \<^verbatim>\<open>db.json\<close> and the two routes over it\<close>

text \<open>
  The state of the file at \<^verbatim>\<open>dbPath\<close>, as \<^verbatim>\<open>readDb\<close> tells the cases apart: no file;
  a file that \<^verbatim>\<open>fs.readFileSync\<close> cannot read; an empty file; text that \<^verbatim>\<open>JSON.parse\<close>
  rejects; text that parses to an object with the given members. \<^verbatim>\<open>writeDb\<close> is the only
  writer and always serialises an object, so text that parses to some other JSON value is
  not a state of the model.
\<close>

datatype db_file =
    NoFile
  | ReadFails
  | EmptyText
  | NotJson
  | Stored "(string \<times> json) list"

fun readDb :: "db_file \<Rightarrow> (string \<times> json) list" where
  "readDb NoFile = []"
| "readDb ReadFails = []"
| "readDb EmptyText = []"
| "readDb NotJson = []"
| "readDb (Stored db) = db"

text \<open>
  \<^verbatim>\<open>writeDb\<close> catches and logs a failure of \<^verbatim>\<open>fs.writeFileSync\<close>; the flag says whether
  the write goes through, and a write that fails is taken to leave the file as it was.
\<close>

definition writeDb :: "bool \<Rightarrow> (string \<times> json) list \<Rightarrow> db_file \<Rightarrow> db_file" where
  "writeDb write_ok db file = (if write_ok then Stored db else file)"

text \<open>A response: the status and the argument handed to \<^verbatim>\<open>res.json\<close>.\<close>

record response =
  status :: nat
  sent :: js_value

definition error_body :: "string \<Rightarrow> js_value" where
  "error_body msg = Json (JObj [(''error'', JStr msg)])"

text \<open>
  \<^verbatim>\<open>GET /api/get-scores\<close>: \<^verbatim>\<open>username\<close> is \<^verbatim>\<open>req.query.username\<close> (\<open>None\<close> when the
  query has none).
\<close>

definition get_scores :: "db_file \<Rightarrow> json option \<Rightarrow> response" where
  "get_scores file username =
     (if \<not> truthy username then \<lparr>status = 400, sent = error_body ''Username is required.''\<rparr>
      else
        let db = readDb file;
            found = get_member db (to_property_key username)
        in (case found of
              Some v \<Rightarrow>
                if truthy_value found then \<lparr>status = 200, sent = v\<rparr>
                else \<lparr>status = 200, sent = Json (JArr [])\<rparr>
            | None \<Rightarrow> \<lparr>status = 200, sent = Json (JArr [])\<rparr>))"

text \<open>
  \<^verbatim>\<open>POST /api/save-score\<close>. \<^verbatim>\<open>body\<close> holds the members of \<^verbatim>\<open>req.body\<close>; the five names
  read from it are none of \<^verbatim>\<open>Object.prototype\<close>'s, so each read is that of the parsed
  member. \<^verbatim>\<open>scoreData\<close> is built with all four keys; \<^verbatim>\<open>JSON.stringify\<close> in \<^verbatim>\<open>writeDb\<close>
  leaves out a key whose value is \<^verbatim>\<open>undefined\<close>, so the stored record holds the members
  the body had. The guard \<^verbatim>\<open>!username || !scoreData.topic\<close> is the two tests in their
  order.
\<close>

definition scoreData :: "(string \<times> json) list \<Rightarrow> (string \<times> json option) list" where
  "scoreData body =
     [(''topic'', map_of body ''topic''), (''score'', map_of body ''score''),
      (''total'', map_of body ''total''), (''timestamp'', map_of body ''timestamp'')]"

definition stringify_object :: "(string \<times> json option) list \<Rightarrow> json" where
  "stringify_object ms =
     JObj (List.map_filter (\<lambda>(k, v). case v of None \<Rightarrow> None | Some j \<Rightarrow> Some (k, j)) ms)"

text \<open>
  \<^verbatim>\<open>db[username].push(scoreData)\<close>, after \<^verbatim>\<open>if (!db[username]) db[username] = []\<close>:
  the new value of the member, or the \<^verbatim>\<open>TypeError\<close> of calling \<^verbatim>\<open>push\<close> on a truthy
  value that has none.
\<close>

definition push_score :: "js_value option \<Rightarrow> json \<Rightarrow> js_error + json" where
  "push_score found entry =
     (if \<not> truthy_value found then Inr (JArr [entry])
      else (case found of
              Some (Json (JArr xs)) \<Rightarrow> Inr (JArr (xs @ [entry]))
            | _ \<Rightarrow> Inl TypeError))"

definition save_score ::
    "bool \<Rightarrow> db_file \<Rightarrow> (string \<times> json) list \<Rightarrow> (js_error + response) \<times> db_file" where
  "save_score write_ok file body =
     (let username = map_of body ''username'';
          rejected =
            (Inr \<lparr>status = 400, sent = error_body ''Username and score data are required.''\<rparr>,
             file)
      in
      if \<not> truthy username then rejected
      else if \<not> truthy (map_of body ''topic'') then rejected
      else
        let db = readDb file;
            key = to_property_key username
        in (case push_score (get_member db key) (stringify_object (scoreData body)) of
              Inl e \<Rightarrow> (Inl e, file)
            | Inr scores \<Rightarrow>
                (Inr \<lparr>status = 201,
                      sent = Json (JObj [(''message'', JStr ''Score saved successfully.'')])\<rparr>,
                 writeDb write_ok (AList.update key scores db) file)))"

section \<open>The quiz generation route\<close>

text \<open>\<^verbatim>\<open>s.includes(pat)\<close>: \<open>pat\<close> occurs in \<open>s\<close> as a contiguous run.\<close>

fun js_includes :: "string \<Rightarrow> string \<Rightarrow> bool" where
  "js_includes [] pat = (pat = [])"
| "js_includes (c # cs) pat = (prefix pat (c # cs) \<or> js_includes cs pat)"

text \<open>
  What the call of the provider and the two lines after it come to: \<^verbatim>\<open>axios.post\<close>
  rejects; the path \<^verbatim>\<open>data.candidates[0].content.parts[0].text\<close> throws; \<^verbatim>\<open>JSON.parse\<close>
  rejects the text; or the text parses to a JSON value. The first three end in the
  \<^verbatim>\<open>catch\<close> block. The provider is not part of the repository: the route takes it as a
  function from the request to the outcome, and returns the requests it made next to
  its response.
\<close>

datatype provider_outcome = TransportError | NoCandidateText | TextNotJson | QuizJson json

record provider_request =
  apiUrl :: string
  userQuery :: string

text \<open>
  The request: \<^verbatim>\<open>apiUrl\<close> with the key, and \<^verbatim>\<open>userQuery\<close> with the topic of the body
  converted to a string by the template. The fixed system prompt is not recorded.
\<close>

definition quiz_request :: "string \<Rightarrow> json option \<Rightarrow> provider_request" where
  "quiz_request k topic_field =
     \<lparr>apiUrl = ''https://generativelanguage.googleapis.com/v1beta/models/''
        @ ''gemini-2.5-flash-preview-09-2025:generateContent?key='' @ k,
      userQuery = ''Generate the 10-question quiz on the topic: ''
        @ [CHR 0x22] @ to_property_key topic_field @ [CHR 0x22]\<rparr>"

text \<open>
  \<^verbatim>\<open>POST /api/generate-quiz\<close>. \<open>apiKey\<close> is \<^verbatim>\<open>process.env.GEMINI_API_KEY\<close> (\<open>None\<close> when
  unset) and \<open>topic_field\<close> the member \<^verbatim>\<open>topic\<close> of the body.
\<close>

definition generate_quiz ::
    "string option \<Rightarrow> (provider_request \<Rightarrow> provider_outcome) \<Rightarrow> json option \<Rightarrow>
       response \<times> provider_request list" where
  "generate_quiz apiKey provider topic_field =
     (let key_error =
            (\<lparr>status = 500,
              sent = error_body ''Server Error: API Key is missing or invalid in .env file.''\<rparr>,
             [])
      in
      case apiKey of
        None \<Rightarrow> key_error
      | Some k \<Rightarrow>
          if k = [] then key_error
          else if js_includes k ''paste_your'' then key_error
          else
            let request = quiz_request k topic_field in
            (case provider request of
               QuizJson quizJson \<Rightarrow> (\<lparr>status = 200, sent = Json quizJson\<rparr>, [request])
             | _ \<Rightarrow>
                 (\<lparr>status = 500, sent = error_body ''Failed to generate quiz from AI.''\<rparr>,
                  [request])))"

section \<open>The client: the state of \<^verbatim>\<open>App\<close> and its handlers\<close>

text \<open>
  A slot of \<^verbatim>\<open>userAnswers\<close>: \<^verbatim>\<open>null\<close> (not answered), \<^verbatim>\<open>undefined\<close>, or an option index.
  A hole of a JavaScript array is a slot \<open>AUndefined\<close>: the spread \<^verbatim>\<open>[...userAnswers]\<close>
  turns holes into \<^verbatim>\<open>undefined\<close>, an indexed read of a hole gives \<^verbatim>\<open>undefined\<close>, and
  \<^verbatim>\<open>some\<close> skips a hole where the test \<^verbatim>\<open>answer === null\<close> is false for \<^verbatim>\<open>undefined\<close>.
\<close>

datatype answer = ANull | AUndefined | ANum int

record feedback_entry =
  fb_question :: json
  userAnswer :: "json option"
  isCorrect :: bool

record quiz_results =
  score :: nat
  total :: nat
  feedback :: "feedback_entry list"

text \<open>
  The state variables the handlers below read or set. \<^verbatim>\<open>usernameInput\<close>, \<^verbatim>\<open>pastScores\<close>
  and \<^verbatim>\<open>loadingScores\<close> only feed the login box and the list of past scores and are left
  out, with \<^verbatim>\<open>fetchScores\<close>.
\<close>

record app_state =
  currentUser :: "string option"
  topic :: string
  quizData :: "json option"
  userAnswers :: "answer list option"
  results :: "quiz_results option"
  isLoading :: bool
  error :: string

text \<open>
  The three screens of \<^verbatim>\<open>renderMainApp\<close>: the topic input (\<^verbatim>\<open>!quizData && !results\<close>), the
  quiz (\<^verbatim>\<open>quizData && !results\<close>) and the results (\<^verbatim>\<open>results\<close>).
\<close>

datatype phase = Idle | Active | Scored

definition session_phase :: "app_state \<Rightarrow> phase" where
  "session_phase st =
     (if results st \<noteq> None then Scored else if truthy (quizData st) then Active else Idle)"

subsection \<open>\<^verbatim>\<open>handleGenerateQuiz\<close>\<close>

text \<open>
  \<^verbatim>\<open>!topic.trim()\<close> holds when every character is white space. A character stands for
  a UTF-16 code unit below 256; of those, \<^verbatim>\<open>trim\<close> strips the seven listed.
\<close>

definition js_whitespace :: "char \<Rightarrow> bool" where
  "js_whitespace c =
     (c \<in> set [CHR 0x09, CHR 0x0A, CHR 0x0B, CHR 0x0C, CHR 0x0D, CHR 0x20, CHR 0xA0])"

definition blank :: "string \<Rightarrow> bool" where
  "blank s = list_all js_whitespace s"

text \<open>\<^verbatim>\<open>response.data.questions || response.data\<close>; reading a property of \<^verbatim>\<open>null\<close> throws.\<close>

fun questions_of :: "json \<Rightarrow> js_error + json" where
  "questions_of JNull = Inl TypeError"
| "questions_of (JObj ps) =
     (case map_of ps ''questions'' of
        Some q \<Rightarrow> if truthy (Some q) then Inr q else Inr (JObj ps)
      | None \<Rightarrow> Inr (JObj ps))"
| "questions_of d = Inr d"

text \<open>
  \<^verbatim>\<open>questions && questions.length > 0\<close>. An array and a string have their length; an
  object has the member \<^verbatim>\<open>length\<close> it was parsed with, if any; a number and a boolean
  have none. Where that member is not a number the comparison converts it to one; that
  conversion is the runtime's and is taken as the parameter \<open>gt0\<close>.
\<close>

fun length_positive :: "(json \<Rightarrow> bool) \<Rightarrow> json \<Rightarrow> bool" where
  "length_positive gt0 (JArr xs) = (xs \<noteq> [])"
| "length_positive gt0 (JStr s) = (s \<noteq> [])"
| "length_positive gt0 (JObj ps) =
     (case map_of ps ''length'' of
        None \<Rightarrow> False
      | Some (JNum n) \<Rightarrow> 0 < n
      | Some v \<Rightarrow> gt0 v)"
| "length_positive gt0 v = False"

text \<open>
  \<^verbatim>\<open>new Array(questions.length).fill(null)\<close>: a length of \<open>2^32\<close> or more is a
  \<^verbatim>\<open>RangeError\<close>, and an argument that is not a number gives the one-element array.
\<close>

fun new_answers :: "json \<Rightarrow> js_error + answer list" where
  "new_answers (JArr xs) = Inr (replicate (length xs) ANull)"
| "new_answers (JStr s) = Inr (replicate (length s) ANull)"
| "new_answers (JObj ps) =
     (case map_of ps ''length'' of
        Some (JNum n) \<Rightarrow>
          if 0 \<le> n \<and> n < 2 ^ 32 then Inr (replicate (nat n) ANull) else Inl RangeError
      | _ \<Rightarrow> Inr [ANull])"
| "new_answers JNull = Inl TypeError"
| "new_answers v = Inr [ANull]"

definition quiz_received :: "(json \<Rightarrow> bool) \<Rightarrow> json \<Rightarrow> app_state \<Rightarrow> app_state" where
  "quiz_received gt0 data st =
     (case questions_of data of
        Inl e \<Rightarrow> st\<lparr>error := ''Error connecting to AI service.''\<rparr>
      | Inr questions \<Rightarrow>
          if length_positive gt0 questions then
            (case new_answers questions of
               Inr slots \<Rightarrow> st\<lparr>quizData := Some questions, userAnswers := Some slots\<rparr>
             | Inl e \<Rightarrow>
                 st\<lparr>quizData := Some questions, error := ''Error connecting to AI service.''\<rparr>)
          else st\<lparr>error := ''Failed to generate quiz.''\<rparr>)"

text \<open>
  \<open>backend\<close> answers the request \<^verbatim>\<open>POST /api/generate-quiz\<close> with the body
  \<^verbatim>\<open>{ topic }\<close>. \<^verbatim>\<open>axios\<close> resolves on a status from 200 to 299 and rejects otherwise.
  A response whose argument was no JSON value has an empty or an object body, which
  fails the length test.
\<close>

definition handleGenerateQuiz ::
    "(json \<Rightarrow> bool) \<Rightarrow> (json option \<Rightarrow> response) \<Rightarrow> app_state \<Rightarrow> app_state" where
  "handleGenerateQuiz gt0 backend st =
     (if blank (topic st) then st
      else
        let st1 = st\<lparr>isLoading := True, error := [], quizData := None, results := None\<rparr>;
            reply = backend (Some (JStr (topic st)));
            st2 =
              (if 200 \<le> status reply \<and> status reply < 300 then
                 (case sent reply of
                    Json data \<Rightarrow> quiz_received gt0 data st1
                  | Builtin k \<Rightarrow> st1\<lparr>error := ''Failed to generate quiz.''\<rparr>)
               else st1\<lparr>error := ''Error connecting to AI service.''\<rparr>)
        in st2\<lparr>isLoading := False\<rparr>)"

text \<open>The client on top of the route: one request for a quiz, end to end.\<close>

definition requestQuiz ::
    "(json \<Rightarrow> bool) \<Rightarrow> string option \<Rightarrow> (provider_request \<Rightarrow> provider_outcome) \<Rightarrow>
       app_state \<Rightarrow> app_state" where
  "requestQuiz gt0 apiKey provider st =
     handleGenerateQuiz gt0 (\<lambda>t. fst (generate_quiz apiKey provider t)) st"

subsection \<open>\<^verbatim>\<open>handleAnswerSelect\<close>\<close>

text \<open>
  \<^verbatim>\<open>newAnswers[questionIndex] = optionIndex\<close> on the fresh copy. An index inside the
  array overwrites; an index at or past the end (below \<open>2^32 - 1\<close>) lengthens the array,
  the slots in between being holes; any other number names a property that is no
  element, so the elements stay as they were.
\<close>

definition array_set :: "answer list \<Rightarrow> int \<Rightarrow> answer \<Rightarrow> answer list" where
  "array_set xs i v =
     (if 0 \<le> i \<and> i < int (length xs) then xs[nat i := v]
      else if int (length xs) \<le> i \<and> i < 2 ^ 32 - 1 then
        xs @ replicate (nat i - length xs) AUndefined @ [v]
      else xs)"

text \<open>The spread of \<^verbatim>\<open>null\<close> throws.\<close>

definition handleAnswerSelect :: "app_state \<Rightarrow> int \<Rightarrow> int \<Rightarrow> js_error + app_state" where
  "handleAnswerSelect st questionIndex optionIndex =
     (case userAnswers st of
        None \<Rightarrow> Inl TypeError
      | Some answers \<Rightarrow>
          Inr (st\<lparr>userAnswers := Some (array_set answers questionIndex (ANum optionIndex))\<rparr>))"

subsection \<open>\<^verbatim>\<open>handleSubmitQuiz\<close>\<close>

text \<open>\<^verbatim>\<open>q.name\<close> for a question that is not \<^verbatim>\<open>null\<close>: only an object has members.\<close>

fun member_of :: "json \<Rightarrow> string \<Rightarrow> json option" where
  "member_of (JObj ps) name = map_of ps name"
| "member_of q name = None"

text \<open>\<^verbatim>\<open>userAnswers[i]\<close>: past the end the read gives \<^verbatim>\<open>undefined\<close>.\<close>

definition answer_at :: "answer list \<Rightarrow> nat \<Rightarrow> answer" where
  "answer_at answers i = (if i < length answers then answers ! i else AUndefined)"

text \<open>\<^verbatim>\<open>q.correctIndex === userAnswers[i]\<close>.\<close>

fun strict_eq :: "json option \<Rightarrow> answer \<Rightarrow> bool" where
  "strict_eq None AUndefined = True"
| "strict_eq (Some JNull) ANull = True"
| "strict_eq (Some (JNum n)) (ANum m) = (n = m)"
| "strict_eq c a = False"

definition answer_key :: "answer \<Rightarrow> string" where
  "answer_key a = (case a of ANull \<Rightarrow> ''null'' | AUndefined \<Rightarrow> ''undefined'' | ANum n \<Rightarrow> show_int n)"

text \<open>
  \<^verbatim>\<open>options[userAnswers[i]]\<close> for the value \<^verbatim>\<open>options\<close> of \<^verbatim>\<open>q.options\<close>: an element of
  an array, a character of a string, a member of an object, \<^verbatim>\<open>undefined\<close> otherwise.
\<close>

fun element_at :: "json \<Rightarrow> answer \<Rightarrow> json option" where
  "element_at (JArr os) (ANum n) =
     (if 0 \<le> n \<and> n < int (length os) then Some (os ! nat n) else None)"
| "element_at (JStr s) (ANum n) =
     (if 0 \<le> n \<and> n < int (length s) then Some (JStr [s ! nat n]) else None)"
| "element_at (JObj ps) a = map_of ps (answer_key a)"
| "element_at options a = None"

text \<open>
  The callback of \<^verbatim>\<open>quizData.map\<close> for the question \<open>q\<close> and the answer \<open>a\<close> at its
  index. Reading \<^verbatim>\<open>q.correctIndex\<close> throws when \<open>q\<close> is \<^verbatim>\<open>null\<close>, and indexing
  \<^verbatim>\<open>q.options\<close> throws when it is \<^verbatim>\<open>undefined\<close> or \<^verbatim>\<open>null\<close>. The entry stands for the
  object \<^verbatim>\<open>{ ...q, userAnswer, isCorrect }\<close>.
\<close>

definition feedback_for :: "json \<Rightarrow> answer \<Rightarrow> js_error + feedback_entry" where
  "feedback_for q a =
     (if q = JNull then Inl TypeError
      else
        let correct = strict_eq (member_of q ''correctIndex'') a in
        case member_of q ''options'' of
          None \<Rightarrow> Inl TypeError
        | Some JNull \<Rightarrow> Inl TypeError
        | Some options \<Rightarrow>
            Inr \<lparr>fb_question = q, userAnswer = element_at options a, isCorrect = correct\<rparr>)"

text \<open>
  \<^verbatim>\<open>quizData.map\<close> from index \<open>i\<close> on, with the counter \<^verbatim>\<open>score\<close> that the callback
  increments: the final count and the feedback, or the error the callback throws.
\<close>

fun score_loop ::
    "json list \<Rightarrow> nat \<Rightarrow> answer list \<Rightarrow> nat \<Rightarrow> js_error + nat \<times> feedback_entry list" where
  "score_loop [] i answers count = Inr (count, [])"
| "score_loop (q # qs) i answers count =
     (case feedback_for q (answer_at answers i) of
        Inl e \<Rightarrow> Inl e
      | Inr entry \<Rightarrow>
          (case score_loop qs (Suc i) answers (if isCorrect entry then Suc count else count) of
             Inl e \<Rightarrow> Inl e
           | Inr (final, entries) \<Rightarrow> Inr (final, entry # entries)))"

text \<open>
  What surrounds the handler: whether the request to the server gets through, whether
  the server's write to the file succeeds, and the time \<^verbatim>\<open>new Date().toISOString()\<close>
  returns.
\<close>

record environment =
  server_reachable :: bool
  disk_writable :: bool
  now_iso :: string

definition newScoreData :: "app_state \<Rightarrow> nat \<Rightarrow> nat \<Rightarrow> string \<Rightarrow> (string \<times> json) list" where
  "newScoreData st final len now =
     [(''username'', (case currentUser st of None \<Rightarrow> JNull | Some u \<Rightarrow> JStr u)),
      (''topic'', JStr (topic st)),
      (''score'', JNum (int final)),
      (''total'', JNum (int len)),
      (''timestamp'', JStr now)]"

text \<open>
  The handler over the client's state and the server's file. The first component is the
  error it throws, if any; state updates made before the throw stay. A rejected request
  and an error response of \<^verbatim>\<open>save-score\<close> are caught and logged.
\<close>

definition handleSubmitQuiz ::
    "environment \<Rightarrow> app_state \<Rightarrow> db_file \<Rightarrow> js_error option \<times> app_state \<times> db_file" where
  "handleSubmitQuiz env st file =
     (case userAnswers st of
        None \<Rightarrow> (Some TypeError, st, file)
      | Some answers \<Rightarrow>
          if list_ex (\<lambda>a. a = ANull) answers then
            (None, st\<lparr>error := ''Please answer all questions.''\<rparr>, file)
          else
            (case quizData st of
               Some (JArr qs) \<Rightarrow>
                 (case score_loop qs 0 answers 0 of
                    Inl e \<Rightarrow> (Some e, st\<lparr>isLoading := True\<rparr>, file)
                  | Inr (final, entries) \<Rightarrow>
                      let finalResults =
                            \<lparr>score = final, total = length qs, feedback = entries\<rparr>;
                          body = newScoreData st final (length qs) (now_iso env);
                          file' =
                            (if server_reachable env
                             then snd (save_score (disk_writable env) file body)
                             else file)
                      in (None,
                          st\<lparr>isLoading := False, results := Some finalResults\<rparr>,
                          file'))
             | _ \<Rightarrow> (Some TypeError, st\<lparr>isLoading := True\<rparr>, file)))"

section \<open>Predicates the properties are stated with\<close>

text \<open>The condition of the route's key check, \<^verbatim>\<open>!apiKey || apiKey.includes('paste_your')\<close>.\<close>

definition credential_missing :: "string option \<Rightarrow> bool" where
  "credential_missing apiKey =
     (case apiKey of
        None \<Rightarrow> True
      | Some k \<Rightarrow> if k = [] then True else js_includes k ''paste_your'')"

text \<open>
  A question the scoring callback does not throw on: its \<^verbatim>\<open>options\<close> are neither
  \<^verbatim>\<open>undefined\<close> nor \<^verbatim>\<open>null\<close> (so the question itself is an object).
\<close>

definition answerable :: "json \<Rightarrow> bool" where
  "answerable q =
     (case member_of q ''options'' of None \<Rightarrow> False | Some JNull \<Rightarrow> False | Some v \<Rightarrow> True)"

text \<open>The feedback entry of an answerable question.\<close>

definition entry_of :: "json \<Rightarrow> answer \<Rightarrow> feedback_entry" where
  "entry_of q a =
     \<lparr>fb_question = q,
      userAnswer = (case member_of q ''options'' of None \<Rightarrow> None | Some v \<Rightarrow> element_at v a),
      isCorrect = strict_eq (member_of q ''correctIndex'') a\<rparr>"

section \<open>Concrete inputs\<close>

text \<open>A quiz of two well-formed questions, a client state showing it, and an environment.\<close>

definition demo_quiz :: "json list" where
  "demo_quiz =
     [JObj [(''question'', JStr ''Closest planet to the Sun?''),
            (''options'', JArr [JStr ''Venus'', JStr ''Mercury'', JStr ''Mars'', JStr ''Earth'']),
            (''correctIndex'', JNum 1), (''explanation'', JStr ''Mercury orbits closest.'')],
      JObj [(''question'', JStr ''Largest planet?''),
            (''options'', JArr [JStr ''Saturn'', JStr ''Neptune'', JStr ''Earth'', JStr ''Jupiter'']),
            (''correctIndex'', JNum 3), (''explanation'', JStr ''Jupiter is the largest.'')]]"

definition demo_state :: "answer list \<Rightarrow> app_state" where
  "demo_state answers =
     \<lparr>currentUser = Some ''Ann'', topic = ''Space'', quizData = Some (JArr demo_quiz),
      userAnswers = Some answers, results = None, isLoading = False, error = []\<rparr>"

definition demo_env :: environment where
  "demo_env =
     \<lparr>server_reachable = True, disk_writable = True, now_iso = ''2025-01-01T00:00:00.000Z''\<rparr>"

text \<open>
  A question with one option and the index 7, and the client state before any quiz was
  requested.
\<close>

definition malformed_question :: json where
  "malformed_question =
     JObj [(''question'', JStr ''Which one?''), (''options'', JArr [JStr ''the only option'']),
           (''correctIndex'', JNum 7), (''explanation'', JStr ''none'')]"

definition idle_state :: app_state where
  "idle_state =
     \<lparr>currentUser = Some ''Ann'', topic = ''Space'', quizData = None, userAnswers = None,
      results = None, isLoading = False, error = []\<rparr>"

section \<open>Properties of the ledger\<close>

lemma get_member_update_other:
  "k' \<noteq> k \<Longrightarrow> get_member (AList.update k v db) k' = get_member db k'"
  by (simp add: get_member_def update_conv')

lemma get_member_update_same:
  "get_member (AList.update k v db) k = Some (Json v)"
  by (simp add: get_member_def update_conv')

lemma get_scores_readDb:
  "readDb file = readDb file' \<Longrightarrow> get_scores file u = get_scores file' u"
  by (simp add: get_scores_def)

lemma save_score_file:
  "snd (save_score write_ok file body) = file \<or>
   (\<exists>scores. snd (save_score write_ok file body) =
      Stored (AList.update (to_property_key (map_of body ''username'')) scores (readDb file)))"
  by (auto simp: save_score_def Let_def writeDb_def split: sum.splits)

lemma push_score_history:
  assumes "get_scores file (Some (JStr u)) = \<lparr>status = 200, sent = Json (JArr xs)\<rparr>"
    and "u \<noteq> []" "u \<notin> set object_prototype_names"
  shows "push_score (get_member (readDb file) u) e = Inr (JArr (xs @ [e]))"
proof (cases "map_of (readDb file) u")
  case None
  with assms show ?thesis
    by (simp add: get_scores_def get_member_def to_property_key_def push_score_def)
next
  case (Some j)
  with assms show ?thesis
    by (cases j) (auto simp: get_scores_def get_member_def to_property_key_def push_score_def
          split: if_splits)
qed

lemma get_scores_updated:
  "u \<noteq> [] \<Longrightarrow>
     get_scores (Stored (AList.update u (JArr ys) db)) (Some (JStr u)) =
       \<lparr>status = 200, sent = Json (JArr ys)\<rparr>"
  by (simp add: get_scores_def to_property_key_def get_member_update_same)

text \<open>
  What holds of the read: when \<^verbatim>\<open>db.json\<close> is missing, cannot be read, is empty or
  holds text that \<^verbatim>\<open>JSON.parse\<close> rejects, \<^verbatim>\<open>readDb\<close> returns the empty object instead of
  failing, and \<^verbatim>\<open>get-scores\<close> answers what it answers over an empty ledger: status 200
  with the empty array, for a user name that is not one of the names a plain object
  inherits.
\<close>

lemma readDb_missing_or_unparseable:
  "file \<in> {NoFile, ReadFails, EmptyText, NotJson} \<Longrightarrow>
     readDb file = [] \<and>
     get_scores file u = get_scores (Stored []) u \<and>
     (truthy u \<longrightarrow> to_property_key u \<notin> set object_prototype_names \<longrightarrow>
        get_scores file u = \<lparr>status = 200, sent = Json (JArr [])\<rparr>)"
  by (auto simp: get_scores_def get_member_def)

text \<open>
  Claim C8. With a missing or unparseable \<^verbatim>\<open>db.json\<close> the read is to give the empty
  mapping, so that \<^verbatim>\<open>get-scores\<close> degrades to an empty history. The read does give the
  empty object, but for the user name \<^verbatim>\<open>constructor\<close> the route then finds the member
  that the empty object inherits and hands it to \<^verbatim>\<open>res.json\<close>: the answer is no empty
  history.
\<close>

theorem get_scores_no_store_inherited_name:
  "readDb NoFile = [] \<and>
   get_scores NoFile (Some (JStr ''constructor'')) =
     \<lparr>status = 200, sent = Builtin ''constructor''\<rparr> \<and>
   readDb NotJson = [] \<and>
   get_scores NotJson (Some (JStr ''constructor'')) =
     \<lparr>status = 200, sent = Builtin ''constructor''\<rparr>"
  by (simp add: get_scores_def get_member_def to_property_key_def object_prototype_names_def)

text \<open>
  Claim C5. \<^verbatim>\<open>get-scores\<close> is to return the empty array for every non-empty user name
  with no stored attempts. For the user name \<^verbatim>\<open>constructor\<close> over an empty ledger the
  read \<^verbatim>\<open>db[username]\<close> finds the inherited member, which is truthy, and the route hands
  that to \<^verbatim>\<open>res.json\<close> instead of the empty array.
\<close>

theorem get_scores_inherited_name:
  "get_scores (Stored []) (Some (JStr ''constructor'')) =
     \<lparr>status = 200, sent = Builtin ''constructor''\<rparr>"
  by (simp add: get_scores_def get_member_def to_property_key_def object_prototype_names_def)

text \<open>
  What holds of \<^verbatim>\<open>get-scores\<close> for the other names: a non-empty user name that no plain
  object inherits and that has no member in the ledger gets status 200 and the empty
  array, whatever the state of the file.
\<close>

theorem get_scores_no_attempts:
  "u \<noteq> [] \<Longrightarrow> u \<notin> set object_prototype_names \<Longrightarrow> map_of (readDb file) u = None \<Longrightarrow>
     get_scores file (Some (JStr u)) = \<lparr>status = 200, sent = Json (JArr [])\<rparr>"
  by (simp add: get_scores_def get_member_def to_property_key_def)

theorem get_scores_no_attempts_witness:
  "''John'' \<noteq> [] \<and> ''John'' \<notin> set object_prototype_names \<and>
   map_of (readDb (Stored [(''Ann'', JArr [])])) ''John'' = None \<and>
   get_scores (Stored [(''Ann'', JArr [])]) (Some (JStr ''John'')) =
     \<lparr>status = 200, sent = Json (JArr [])\<rparr>"
  using get_scores_no_attempts [of "''John''" "Stored [(''Ann'', JArr [])]"]
  by (simp add: object_prototype_names_def)

text \<open>
  The route answers 400 exactly when the user name is missing or empty (falsy), and 200
  otherwise.
\<close>

theorem get_scores_status:
  "status (get_scores file username) = (if truthy username then 200 else 400)"
  by (simp add: get_scores_def Let_def split: option.splits)

text \<open>
  Claim C9. Saving a score under the user name \<open>u\<close> leaves what \<^verbatim>\<open>get-scores\<close> returns
  for any other user name \<open>v\<close> as it was, whether the request is rejected, throws, or
  goes through, and whether or not the write to the file succeeds.
\<close>

theorem save_score_frame:
  assumes "u \<noteq> v" and "map_of body ''username'' = Some (JStr u)"
  shows "get_scores (snd (save_score write_ok file body)) (Some (JStr v)) =
           get_scores file (Some (JStr v))"
proof -
  let ?file' = "snd (save_score write_ok file body)"
  consider "?file' = file"
    | scores where "?file' = Stored (AList.update u scores (readDb file))"
    using save_score_file [of write_ok "file" body] assms(2)
    by (auto simp: to_property_key_def)
  then show ?thesis
  proof cases
    case 1
    then show ?thesis by simp
  next
    case 2
    then show ?thesis using assms(1)
      by (simp add: get_scores_def to_property_key_def get_member_update_other)
  qed
qed

theorem save_score_frame_witness:
  "''Ann'' \<noteq> ''John'' \<and>
   map_of [(''username'', JStr ''Ann''), (''topic'', JStr ''Space''), (''score'', JNum 7)]
     ''username'' = Some (JStr ''Ann'') \<and>
   snd (save_score True (Stored [(''John'', JArr [JNum 1])])
          [(''username'', JStr ''Ann''), (''topic'', JStr ''Space''), (''score'', JNum 7)]) =
     Stored [(''John'', JArr [JNum 1]),
             (''Ann'', JArr [JObj [(''topic'', JStr ''Space''), (''score'', JNum 7)]])] \<and>
   get_scores (snd (save_score True (Stored [(''John'', JArr [JNum 1])])
          [(''username'', JStr ''Ann''), (''topic'', JStr ''Space''), (''score'', JNum 7)]))
      (Some (JStr ''John'')) =
     get_scores (Stored [(''John'', JArr [JNum 1])]) (Some (JStr ''John''))"
  using save_score_frame [of "''Ann''" "''John''"
      "[(''username'', JStr ''Ann''), (''topic'', JStr ''Space''), (''score'', JNum 7)]"
      True "Stored [(''John'', JArr [JNum 1])]"]
  by (simp add: save_score_def get_member_def to_property_key_def object_prototype_names_def
      push_score_def scoreData_def stringify_object_def List.map_filter_simps writeDb_def)

text \<open>
  Claim C4. Saving a score and then reading the scores of the same user is to return a
  sequence that ends with the saved record, for every non-empty user name. For the user
  name \<^verbatim>\<open>constructor\<close> the read \<^verbatim>\<open>db[username]\<close> finds the inherited member, so no
  array is created, the call of \<^verbatim>\<open>push\<close> throws, nothing is written, and the read
  afterwards returns no sequence.
\<close>

theorem save_score_inherited_name:
  "save_score True (Stored [])
     [(''username'', JStr ''constructor''), (''topic'', JStr ''Space''), (''score'', JNum 7),
      (''total'', JNum 10), (''timestamp'', JStr ''2025-01-01T00:00:00.000Z'')] =
     (Inl TypeError, Stored []) \<and>
   get_scores (Stored []) (Some (JStr ''constructor'')) \<noteq>
     \<lparr>status = 200,
      sent = Json (JArr [JObj [(''topic'', JStr ''Space''), (''score'', JNum 7),
        (''total'', JNum 10), (''timestamp'', JStr ''2025-01-01T00:00:00.000Z'')]])\<rparr>"
  by (simp add: save_score_def get_scores_def get_member_def to_property_key_def
      object_prototype_names_def push_score_def)

text \<open>
  What holds for the other names: when the user name is non-empty and not inherited, the
  topic is truthy, \<^verbatim>\<open>get-scores\<close> returned the sequence \<open>xs\<close> before and the write
  succeeds, the route answers 201 and \<^verbatim>\<open>get-scores\<close> returns \<open>xs\<close> with the saved record
  at its end. The record holds the members \<^verbatim>\<open>topic\<close>, \<^verbatim>\<open>score\<close>, \<^verbatim>\<open>total\<close> and
  \<^verbatim>\<open>timestamp\<close> that the body has, whatever their values: none but the topic is tested.
\<close>

theorem save_then_get:
  assumes "u \<noteq> []" "u \<notin> set object_prototype_names"
    and "map_of body ''username'' = Some (JStr u)" "truthy (map_of body ''topic'')"
    and "get_scores file (Some (JStr u)) = \<lparr>status = 200, sent = Json (JArr xs)\<rparr>"
  shows "\<exists>file'. save_score True file body =
            (Inr \<lparr>status = 201,
                  sent = Json (JObj [(''message'', JStr ''Score saved successfully.'')])\<rparr>,
             file') \<and>
          get_scores file' (Some (JStr u)) =
            \<lparr>status = 200, sent = Json (JArr (xs @ [stringify_object (scoreData body)]))\<rparr>"
  using assms(1,3,4) push_score_history [OF assms(5,1,2)] get_scores_updated [OF assms(1)]
  by (simp add: save_score_def Let_def writeDb_def to_property_key_def)

theorem save_then_get_witness:
  "''Ann'' \<noteq> [] \<and> ''Ann'' \<notin> set object_prototype_names \<and>
   map_of [(''username'', JStr ''Ann''), (''topic'', JStr ''Space''), (''score'', JStr ''seven'')]
      ''username'' = Some (JStr ''Ann'') \<and>
   truthy (map_of [(''username'', JStr ''Ann''), (''topic'', JStr ''Space''),
                   (''score'', JStr ''seven'')] ''topic'') \<and>
   get_scores (Stored [(''Ann'', JArr [JObj [(''topic'', JStr ''Seas'')]])]) (Some (JStr ''Ann'')) =
     \<lparr>status = 200, sent = Json (JArr [JObj [(''topic'', JStr ''Seas'')]])\<rparr> \<and>
   (\<exists>file'. save_score True (Stored [(''Ann'', JArr [JObj [(''topic'', JStr ''Seas'')]])])
        [(''username'', JStr ''Ann''), (''topic'', JStr ''Space''), (''score'', JStr ''seven'')] =
        (Inr \<lparr>status = 201,
              sent = Json (JObj [(''message'', JStr ''Score saved successfully.'')])\<rparr>, file') \<and>
      get_scores file' (Some (JStr ''Ann'')) =
        \<lparr>status = 200,
         sent = Json (JArr [JObj [(''topic'', JStr ''Seas'')],
                            JObj [(''topic'', JStr ''Space''), (''score'', JStr ''seven'')]])\<rparr>)"
  using save_then_get [of "''Ann''"
      "[(''username'', JStr ''Ann''), (''topic'', JStr ''Space''), (''score'', JStr ''seven'')]"
      "Stored [(''Ann'', JArr [JObj [(''topic'', JStr ''Seas'')]])]"
      "[JObj [(''topic'', JStr ''Seas'')]]"]
  by (simp add: object_prototype_names_def get_scores_def get_member_def to_property_key_def
      scoreData_def stringify_object_def List.map_filter_simps)

text \<open>
  Claim C10. \<^verbatim>\<open>save-score\<close> is to succeed and store the record for every request with a
  non-empty user name and a non-empty topic, whatever the other fields. For the user
  name \<^verbatim>\<open>toString\<close> and a body with no score, total or timestamp, the tests on the user
  name and the topic pass, the read \<^verbatim>\<open>db[username]\<close> finds the inherited member, and the
  call of \<^verbatim>\<open>push\<close> throws: no success response, and nothing is written.
\<close>

theorem save_score_toString_throws:
  "save_score True NoFile [(''username'', JStr ''toString''), (''topic'', JStr ''Space'')] =
     (Inl TypeError, NoFile)"
  by (simp add: save_score_def get_member_def to_property_key_def
      object_prototype_names_def push_score_def)

section \<open>Properties of the generation route\<close>

text \<open>
  Claim C6. When the key is unset, empty or still the placeholder, the route answers
  500 with the configuration error and makes no request to the provider: the check
  comes before the call.
\<close>

theorem generate_quiz_key_check:
  "credential_missing apiKey \<Longrightarrow>
     generate_quiz apiKey provider topic_field =
       (\<lparr>status = 500,
         sent = error_body ''Server Error: API Key is missing or invalid in .env file.''\<rparr>,
        [])"
  by (auto simp: credential_missing_def generate_quiz_def split: option.splits if_splits)

theorem generate_quiz_key_check_witness:
  "credential_missing (Some ''paste_your_key_here'') \<and>
   generate_quiz (Some ''paste_your_key_here'') (\<lambda>r. QuizJson (JObj []))
       (Some (JStr ''Space'')) =
     (\<lparr>status = 500,
       sent = error_body ''Server Error: API Key is missing or invalid in .env file.''\<rparr>,
      [])"
  using generate_quiz_key_check [of "Some ''paste_your_key_here''" "\<lambda>r. QuizJson (JObj [])"
      "Some (JStr ''Space'')"]
  by (simp add: credential_missing_def)

text \<open>With a key that passes the check the route makes exactly one request.\<close>

lemma generate_quiz_one_request:
  "\<not> credential_missing apiKey \<Longrightarrow>
     \<exists>k. apiKey = Some k \<and>
         snd (generate_quiz apiKey provider topic_field) = [quiz_request k topic_field]"
  by (auto simp: credential_missing_def generate_quiz_def Let_def
      split: option.splits if_splits provider_outcome.splits)

section \<open>Properties of the client\<close>

lemma feedback_for_answerable: "answerable q \<Longrightarrow> feedback_for q a = Inr (entry_of q a)"
  by (cases q)
    (auto simp: answerable_def feedback_for_def entry_of_def split: option.splits json.splits)

lemma isCorrect_entry_of [simp]:
  "isCorrect (entry_of q a) = strict_eq (member_of q ''correctIndex'') a"
  by (simp add: entry_of_def)

text \<open>
  The loop over answerable questions throws nothing, adds one to the counter for each
  index whose answer is strictly equal to \<^verbatim>\<open>correctIndex\<close>, and yields one entry for
  each question, in order.
\<close>

lemma score_loop_answerable:
  "list_all answerable qs \<Longrightarrow>
   score_loop qs i answers c =
     Inr (c + length (filter (\<lambda>k. strict_eq (member_of (qs ! k) ''correctIndex'')
                                    (answer_at answers (i + k))) [0..<length qs]),
          map (\<lambda>k. entry_of (qs ! k) (answer_at answers (i + k))) [0..<length qs])"
proof (induction qs arbitrary: i c)
  case Nil
  then show ?case by simp
next
  case (Cons q qs)
  have upt: "[0..<length (q # qs)] = 0 # map Suc [0..<length qs]"
    by (simp add: upt_conv_Cons map_Suc_upt del: upt_Suc)
  from Cons.prems have q: "answerable q" and qs: "list_all answerable qs" by simp_all
  show ?case
    unfolding upt
    by (simp add: feedback_for_answerable [OF q] Cons.IH [OF qs] filter_map o_def)
qed

text \<open>
  The handler over answerable questions, in terms of the comparison \<open>strict_eq\<close>:
  it throws nothing and sets the results, whose score counts the indices at which the
  comparison holds and whose entry at each index carries the comparison's outcome.
\<close>

lemma submit_scores_strict:
  assumes "quizData st = Some (JArr qs)" "userAnswers st = Some answers"
    and "length answers = length qs" "ANull \<notin> set answers" "list_all answerable qs"
  shows "\<exists>st' file' r.
           handleSubmitQuiz env st file = (None, st', file') \<and>
           results st' = Some r \<and>
           score r = length (filter (\<lambda>i. strict_eq (member_of (qs ! i) ''correctIndex'')
                                          (answers ! i)) [0..<length qs]) \<and>
           total r = length qs \<and>
           length (feedback r) = length qs \<and>
           (\<forall>i<length qs. isCorrect (feedback r ! i) =
                             strict_eq (member_of (qs ! i) ''correctIndex'') (answers ! i))"
proof -
  let ?correct = "\<lambda>i. strict_eq (member_of (qs ! i) ''correctIndex'') (answers ! i)"
  have at: "answer_at answers k = answers ! k" if "k < length qs" for k
    using that assms(3) by (simp add: answer_at_def)
  have count: "filter (\<lambda>k. strict_eq (member_of (qs ! k) ''correctIndex'') (answer_at answers k))
                 [0..<length qs] = filter ?correct [0..<length qs]"
    by (rule filter_cong) (simp_all add: at)
  have entries: "map (\<lambda>k. entry_of (qs ! k) (answer_at answers k)) [0..<length qs] =
                 map (\<lambda>k. entry_of (qs ! k) (answers ! k)) [0..<length qs]"
    by (rule map_cong) (simp_all add: at)
  have loop: "score_loop qs 0 answers 0 =
      Inr (length (filter ?correct [0..<length qs]),
           map (\<lambda>k. entry_of (qs ! k) (answers ! k)) [0..<length qs])"
    using score_loop_answerable [OF assms(5), of 0 answers 0] by (simp add: count entries)
  have unanswered: "\<not> list_ex (\<lambda>a. a = ANull) answers"
    using assms(4) by (simp add: list_ex_iff)
  show ?thesis
    using assms(1,2) unanswered by (simp add: handleSubmitQuiz_def loop Let_def)
qed

text \<open>
  The comparison \<^verbatim>\<open>q.correctIndex === userAnswers[i]\<close> against a number: it holds
  exactly when the slot is that number chosen as the option index.
\<close>

lemma strict_eq_number: "strict_eq (Some (JNum c)) a = (a = ANum c)"
  by (cases a) auto

text \<open>
  Claim C1. For a quiz whose questions all have options and a number as
  \<^verbatim>\<open>correctIndex\<close> (the numbers \<open>cs\<close>, one for each question), and an answer vector of
  the same length with no \<^verbatim>\<open>null\<close> slot, submitting throws nothing and sets the results:
  the score is the number of indices \<open>i\<close> at which the answer equals the question's
  \<^verbatim>\<open>correctIndex\<close>, the total is the number of questions, there is one feedback entry
  for each question, and the entry at \<open>i\<close> is marked correct exactly when the answer at
  \<open>i\<close> equals that question's \<^verbatim>\<open>correctIndex\<close>.
\<close>

theorem submit_scores_quiz:
  assumes "quizData st = Some (JArr qs)" "userAnswers st = Some answers"
    and "length answers = length qs" "ANull \<notin> set answers" "list_all answerable qs"
    and "list_all2 (\<lambda>q c. member_of q ''correctIndex'' = Some (JNum c)) qs cs"
  shows "\<exists>st' file' r.
           handleSubmitQuiz env st file = (None, st', file') \<and>
           results st' = Some r \<and>
           score r = length (filter (\<lambda>i. answers ! i = ANum (cs ! i)) [0..<length qs]) \<and>
           total r = length qs \<and>
           length (feedback r) = length qs \<and>
           (\<forall>i<length qs. isCorrect (feedback r ! i) = (answers ! i = ANum (cs ! i)))"
proof -
  have idx: "strict_eq (member_of (qs ! i) ''correctIndex'') (answers ! i) =
               (answers ! i = ANum (cs ! i))" if "i < length qs" for i
    using list_all2_nthD [OF assms(6) that] by (simp add: strict_eq_number)
  have count: "filter (\<lambda>i. strict_eq (member_of (qs ! i) ''correctIndex'') (answers ! i))
                 [0..<length qs] =
               filter (\<lambda>i. answers ! i = ANum (cs ! i)) [0..<length qs]"
    by (rule filter_cong) (simp_all add: idx)
  from submit_scores_strict [OF assms(1-5), of env "file"]
  obtain st' file' r where r:
    "handleSubmitQuiz env st file = (None, st', file')" "results st' = Some r"
    "score r = length (filter (\<lambda>i. strict_eq (member_of (qs ! i) ''correctIndex'')
                                    (answers ! i)) [0..<length qs])"
    "total r = length qs" "length (feedback r) = length qs"
    "\<forall>i<length qs. isCorrect (feedback r ! i) =
        strict_eq (member_of (qs ! i) ''correctIndex'') (answers ! i)"
    by blast
  from r(3) have "score r = length (filter (\<lambda>i. answers ! i = ANum (cs ! i)) [0..<length qs])"
    by (simp only: count)
  moreover from r(6) have
    "\<forall>i<length qs. isCorrect (feedback r ! i) = (answers ! i = ANum (cs ! i))"
    by (simp add: idx)
  ultimately show ?thesis using r(1,2,4,5) by blast
qed

text \<open>
  Claim C3. In the quiz screen, with an answer vector that has a \<^verbatim>\<open>null\<close> slot,
  submitting throws nothing and only sets the error message: the quiz, the answers and
  the (absent) results stay, so the quiz screen stays, no request is sent and the file
  of the ledger is as before.
\<close>

theorem submit_incomplete:
  assumes "session_phase st = Active" "userAnswers st = Some answers" "ANull \<in> set answers"
  shows "handleSubmitQuiz env st file =
           (None, st\<lparr>error := ''Please answer all questions.''\<rparr>, file) \<and>
         session_phase (st\<lparr>error := ''Please answer all questions.''\<rparr>) = Active \<and>
         userAnswers (st\<lparr>error := ''Please answer all questions.''\<rparr>) = Some answers \<and>
         quizData (st\<lparr>error := ''Please answer all questions.''\<rparr>) = quizData st \<and>
         results (st\<lparr>error := ''Please answer all questions.''\<rparr>) = None"
  using assms
  by (auto simp: handleSubmitQuiz_def session_phase_def list_ex_iff split: if_splits)

theorem submit_scores_quiz_witness:
  "quizData (demo_state [ANum 1, ANum 0]) = Some (JArr demo_quiz) \<and>
   userAnswers (demo_state [ANum 1, ANum 0]) = Some [ANum 1, ANum 0] \<and>
   length [ANum 1, ANum 0] = length demo_quiz \<and>
   ANull \<notin> set [ANum 1, ANum 0] \<and>
   list_all answerable demo_quiz \<and>
   list_all2 (\<lambda>q c. member_of q ''correctIndex'' = Some (JNum c)) demo_quiz [1, 3] \<and>
   (\<exists>st' file' r.
      handleSubmitQuiz demo_env (demo_state [ANum 1, ANum 0]) NoFile = (None, st', file') \<and>
      results st' = Some r \<and> score r = 1 \<and> total r = 2 \<and> length (feedback r) = 2 \<and>
      isCorrect (feedback r ! 0) \<and> \<not> isCorrect (feedback r ! 1))"
proof -
  have h: "quizData (demo_state [ANum 1, ANum 0]) = Some (JArr demo_quiz)"
    "userAnswers (demo_state [ANum 1, ANum 0]) = Some [ANum 1, ANum 0]"
    "length [ANum 1, ANum 0] = length demo_quiz"
    "ANull \<notin> set [ANum 1, ANum 0]"
    "list_all answerable demo_quiz"
    "list_all2 (\<lambda>q c. member_of q ''correctIndex'' = Some (JNum c)) demo_quiz [1, 3]"
    by (simp_all add: demo_state_def demo_quiz_def answerable_def)
  from submit_scores_quiz [OF h, of demo_env NoFile]
  obtain st' file' r where
    "handleSubmitQuiz demo_env (demo_state [ANum 1, ANum 0]) NoFile = (None, st', file')"
    "results st' = Some r"
    "score r = length (filter (\<lambda>i. [ANum 1, ANum 0] ! i = ANum ([1, 3] ! i))
                         [0..<length demo_quiz])"
    "total r = length demo_quiz"
    "length (feedback r) = length demo_quiz"
    "\<forall>i<length demo_quiz. isCorrect (feedback r ! i) =
        ([ANum 1, ANum 0] ! i = ANum ([1, 3] ! i))"
    by blast
  moreover have "length demo_quiz = 2" by (simp add: demo_quiz_def)
  moreover have "[0..<2] = [0, 1]" by (simp add: upt_rec)
  ultimately show ?thesis
    using h by (intro conjI exI[of _ st'] exI[of _ file'] exI[of _ r]) simp_all
qed

theorem submit_incomplete_witness:
  "session_phase (demo_state [ANum 1, ANull]) = Active \<and>
   userAnswers (demo_state [ANum 1, ANull]) = Some [ANum 1, ANull] \<and>
   ANull \<in> set [ANum 1, ANull] \<and>
   handleSubmitQuiz demo_env (demo_state [ANum 1, ANull]) (Stored []) =
     (None, (demo_state [ANum 1, ANull])\<lparr>error := ''Please answer all questions.''\<rparr>,
      Stored []) \<and>
   session_phase ((demo_state [ANum 1, ANull])\<lparr>error := ''Please answer all questions.''\<rparr>) =
     Active"
  using submit_incomplete [of "demo_state [ANum 1, ANull]" "[ANum 1, ANull]" demo_env "Stored []"]
  by (simp add: demo_state_def session_phase_def)

text \<open>
  Claim C7, as stated: a call with a question index outside the vector leaves the
  vector unchanged. It does not: the handler tests no bound, and the index 5 on a
  vector of two slots lengthens it to six.
\<close>

theorem select_past_end_lengthens:
  "handleAnswerSelect (demo_state [ANull, ANull]) 5 1 =
     Inr ((demo_state [ANull, ANull])
            \<lparr>userAnswers := Some [ANull, ANull, AUndefined, AUndefined, AUndefined, ANum 1]\<rparr>) \<and>
   userAnswers ((demo_state [ANull, ANull])
            \<lparr>userAnswers := Some [ANull, ANull, AUndefined, AUndefined, AUndefined, ANum 1]\<rparr>)
     \<noteq> userAnswers (demo_state [ANull, ANull])"
  by (simp add: handleAnswerSelect_def demo_state_def array_set_def numeral_eq_Suc)

text \<open>
  Claim C7, amended. The handler tests no bound and changes nothing but the answer
  vector. A question index inside the vector overwrites that slot with the option index
  and leaves every other slot as it was. An index at or past the end and below
  \<open>2^32 - 1\<close> lengthens the vector up to that index, the new slots in between
  \<^verbatim>\<open>undefined\<close> and the last one the option index. An index at or past the end that is
  \<open>2^32 - 1\<close> or more, and a negative index, leave the slots as they were.
\<close>

theorem select_sets_slot:
  assumes "userAnswers st = Some answers"
  shows "\<exists>slots.
           handleAnswerSelect st questionIndex optionIndex =
             Inr (st\<lparr>userAnswers := Some slots\<rparr>) \<and>
           (0 \<le> questionIndex \<and> questionIndex < int (length answers) \<longrightarrow>
              length slots = length answers \<and> slots ! nat questionIndex = ANum optionIndex \<and>
              (\<forall>j<length answers. j \<noteq> nat questionIndex \<longrightarrow> slots ! j = answers ! j)) \<and>
           (int (length answers) \<le> questionIndex \<and> questionIndex < 2 ^ 32 - 1 \<longrightarrow>
              slots = answers @ replicate (nat questionIndex - length answers) AUndefined
                        @ [ANum optionIndex]) \<and>
           (int (length answers) \<le> questionIndex \<and> 2 ^ 32 - 1 \<le> questionIndex \<longrightarrow>
              slots = answers) \<and>
           (questionIndex < 0 \<longrightarrow> slots = answers)"
  using assms by (auto simp: handleAnswerSelect_def array_set_def)

theorem select_sets_slot_witness:
  "userAnswers (demo_state [ANum 2, ANull]) = Some [ANum 2, ANull] \<and>
   handleAnswerSelect (demo_state [ANum 2, ANull]) 0 3 =
     Inr ((demo_state [ANum 2, ANull])\<lparr>userAnswers := Some [ANum 3, ANull]\<rparr>) \<and>
   handleAnswerSelect (demo_state [ANum 2, ANull]) 3 1 =
     Inr ((demo_state [ANum 2, ANull])
            \<lparr>userAnswers := Some [ANum 2, ANull, AUndefined, ANum 1]\<rparr>) \<and>
   handleAnswerSelect (demo_state [ANum 2, ANull]) 4294967295 3 =
     Inr ((demo_state [ANum 2, ANull])\<lparr>userAnswers := Some [ANum 2, ANull]\<rparr>) \<and>
   handleAnswerSelect (demo_state [ANum 2, ANull]) (- 1) 3 =
     Inr ((demo_state [ANum 2, ANull])\<lparr>userAnswers := Some [ANum 2, ANull]\<rparr>)"
proof -
  have inside: "handleAnswerSelect (demo_state [ANum 2, ANull]) 0 3 =
      Inr ((demo_state [ANum 2, ANull])\<lparr>userAnswers := Some [ANum 3, ANull]\<rparr>)"
    using select_sets_slot [of "demo_state [ANum 2, ANull]" "[ANum 2, ANull]" 0 3]
    by (simp add: demo_state_def handleAnswerSelect_def array_set_def)
  have past: "handleAnswerSelect (demo_state [ANum 2, ANull]) 3 1 =
      Inr ((demo_state [ANum 2, ANull])
             \<lparr>userAnswers := Some [ANum 2, ANull, AUndefined, ANum 1]\<rparr>)"
    using select_sets_slot [of "demo_state [ANum 2, ANull]" "[ANum 2, ANull]" 3 1]
    by (simp add: demo_state_def handleAnswerSelect_def array_set_def)
  have beyond: "handleAnswerSelect (demo_state [ANum 2, ANull]) 4294967295 3 =
      Inr ((demo_state [ANum 2, ANull])\<lparr>userAnswers := Some [ANum 2, ANull]\<rparr>)"
    using select_sets_slot [of "demo_state [ANum 2, ANull]" "[ANum 2, ANull]" 4294967295 3]
    by (simp add: demo_state_def)
  have negative: "handleAnswerSelect (demo_state [ANum 2, ANull]) (- 1) 3 =
      Inr ((demo_state [ANum 2, ANull])\<lparr>userAnswers := Some [ANum 2, ANull]\<rparr>)"
    using select_sets_slot [of "demo_state [ANum 2, ANull]" "[ANum 2, ANull]" "- 1" 3]
    by (simp add: demo_state_def)
  show ?thesis
    using inside past beyond negative by (simp add: demo_state_def)
qed

text \<open>
  Claim C2, as stated: a provider reply with a question whose index is outside 0 to 3,
  whose options are not four, whose questions are not ten, or that has no
  \<^verbatim>\<open>questions\<close> field, makes the generation fail. It does not: neither the route nor the
  client inspects a question. A reply with the single malformed question, under
  \<^verbatim>\<open>questions\<close> or as a bare array, becomes the quiz, with no error message.
\<close>

theorem malformed_quiz_accepted:
  "requestQuiz (\<lambda>v. False) (Some ''secret-key'')
      (\<lambda>r. QuizJson (JObj [(''questions'', JArr [malformed_question])])) idle_state =
     idle_state\<lparr>quizData := Some (JArr [malformed_question]), userAnswers := Some [ANull]\<rparr> \<and>
   requestQuiz (\<lambda>v. False) (Some ''secret-key'')
      (\<lambda>r. QuizJson (JArr [malformed_question])) idle_state =
     idle_state\<lparr>quizData := Some (JArr [malformed_question]), userAnswers := Some [ANull]\<rparr> \<and>
   error (idle_state\<lparr>quizData := Some (JArr [malformed_question]),
                      userAnswers := Some [ANull]\<rparr>) = []"
  by (simp add: requestQuiz_def handleGenerateQuiz_def generate_quiz_def idle_state_def blank_def
      js_whitespace_def quiz_received_def)

lemma generate_quiz_response:
  "\<not> credential_missing (Some k) \<Longrightarrow>
     fst (generate_quiz (Some k) provider t) =
       (case provider (quiz_request k t) of
          QuizJson quizJson \<Rightarrow> \<lparr>status = 200, sent = Json quizJson\<rparr>
        | _ \<Rightarrow> \<lparr>status = 500, sent = error_body ''Failed to generate quiz from AI.''\<rparr>)"
  by (auto simp: credential_missing_def generate_quiz_def Let_def
      split: if_splits provider_outcome.splits)

text \<open>
  Claim C2, amended. With a topic that is not blank and a key that passes the check:
  when the request to the provider fails, the reply has no candidate text or the text
  is not JSON, the client ends with no quiz and the message of a failed connection;
  when the text parses to an array, or to an object whose \<^verbatim>\<open>questions\<close> is an array, an
  empty array ends with no quiz and the message of a failed generation, and a non-empty
  array becomes the quiz as it is, with one \<^verbatim>\<open>null\<close> answer slot for each of its
  entries, whatever their number and content.
\<close>

theorem requestQuiz_outcomes:
  assumes "\<not> blank (topic st)" "\<not> credential_missing (Some k)"
  shows
    "(provider (quiz_request k (Some (JStr (topic st))))
        \<in> {TransportError, NoCandidateText, TextNotJson} \<longrightarrow>
        requestQuiz gt0 (Some k) provider st =
          st\<lparr>isLoading := False, error := ''Error connecting to AI service.'',
             quizData := None, results := None\<rparr>) \<and>
     (\<forall>qs. provider (quiz_request k (Some (JStr (topic st)))) = QuizJson (JArr qs) \<or>
           (\<exists>ps. provider (quiz_request k (Some (JStr (topic st)))) = QuizJson (JObj ps) \<and>
                 map_of ps ''questions'' = Some (JArr qs)) \<longrightarrow>
        requestQuiz gt0 (Some k) provider st =
          (if qs = [] then
             st\<lparr>isLoading := False, error := ''Failed to generate quiz.'',
                quizData := None, results := None\<rparr>
           else
             st\<lparr>isLoading := False, error := [], quizData := Some (JArr qs),
                userAnswers := Some (replicate (length qs) ANull), results := None\<rparr>))"
  using assms(1)
  by (auto simp: requestQuiz_def handleGenerateQuiz_def generate_quiz_response [OF assms(2)]
        quiz_received_def)

theorem requestQuiz_outcomes_witness:
  "\<not> blank (topic idle_state) \<and> \<not> credential_missing (Some ''secret-key'') \<and>
   requestQuiz (\<lambda>v. False) (Some ''secret-key'') (\<lambda>r. TextNotJson) idle_state =
     idle_state\<lparr>error := ''Error connecting to AI service.''\<rparr> \<and>
   requestQuiz (\<lambda>v. False) (Some ''secret-key'')
      (\<lambda>r. QuizJson (JObj [(''questions'', JArr demo_quiz)])) idle_state =
     idle_state\<lparr>quizData := Some (JArr demo_quiz), userAnswers := Some [ANull, ANull]\<rparr>"
  using requestQuiz_outcomes [of idle_state "''secret-key''" "\<lambda>r. TextNotJson" "\<lambda>v. False"]
    requestQuiz_outcomes [of idle_state "''secret-key''"
      "\<lambda>r. QuizJson (JObj [(''questions'', JArr demo_quiz)])" "\<lambda>v. False"]
  by (simp add: idle_state_def blank_def js_whitespace_def credential_missing_def demo_quiz_def)

end
